theory Spec2Isabelle
  imports Main
begin

section \<open>Data model of the contact form service\<close>

text \<open>
  A text of the program, a Python \<open>str\<close>, is the list of its code points, so that a
  text with a lone surrogate in it, which a JSON body can carry, is a value like any
  other. The literals of the program are written as strings and lifted by \<open>lit\<close>.
\<close>

type_synonym str = "nat list"

definition lit :: "string \<Rightarrow> str" where
  "lit s = map of_char s"

text \<open>
  The class \<open>ContactForm\<close> of \<open>main.py\<close> is a record of five texts; \<open>company\<close> is the
  only field with a default.
\<close>

record ContactForm =
  name :: str
  email :: str
  company :: str
  subject :: str
  message :: str

text \<open>
  \<open>EMAIL_CONFIG\<close> and \<open>RECIPIENT_EMAIL\<close>. A value read with \<open>os.getenv\<close> and no default
  is \<open>None\<close> when the variable is unset. The entry \<open>use_tls\<close> is the literal \<open>True\<close> and
  appears where it is used, in the call of the transport.
\<close>

record config =
  hostname :: str
  port :: int
  username :: "str option"
  password :: "str option"
  RECIPIENT_EMAIL :: "str option"

text \<open>
  The exceptions of the program. \<open>HTTPException\<close> carries \<open>status_code\<close> and \<open>detail\<close>;
  \<open>UnicodeEncodeError\<close> is what \<open>MIMEText\<close> raises on a text it cannot encode;
  \<open>TransportError\<close> stands for whatever \<open>aiosmtplib.send\<close> raises. All derive from
  \<open>Exception\<close>, so a handler \<open>except Exception\<close> catches each of them.
\<close>

datatype exn =
  HTTPException nat string
| UnicodeEncodeError
| TransportError string

text \<open>
  A multipart message: the headers assigned by the code and the parts attached to it,
  each part kept as its text. A header the code does not assign is \<open>None\<close>.
\<close>

record MIMEMultipart =
  Subject :: "str option"
  From :: "str option"
  To :: "str option"
  Reply_To :: "str option"
  parts :: "str list"

definition attach :: "MIMEMultipart \<Rightarrow> str \<Rightarrow> MIMEMultipart" where
  "attach m part = m\<lparr>parts := parts m @ [part]\<rparr>"

text \<open>The arguments of one call of \<open>aiosmtplib.send\<close>.\<close>

record smtp_call =
  msg :: MIMEMultipart
  call_hostname :: str
  call_port :: int
  start_tls :: bool
  call_username :: "str option"
  call_password :: "str option"

datatype send_outcome = Delivered | Raised exn

text \<open>
  What the program takes from outside: the mail relay, which answers each call of
  \<open>aiosmtplib.send\<close>, and the clock, read as
  \<open>datetime.now().strftime('%B %d, %Y at %I:%M %p')\<close>, a string of plain characters.
\<close>

record env =
  smtp :: "smtp_call \<Rightarrow> send_outcome"
  now :: string

text \<open>
  What the program does to the outside: the calls of \<open>aiosmtplib.send\<close> it has made,
  oldest first, and the lines it has printed, each kept as its fixed prefix and the
  exception whose \<open>str\<close> follows the prefix.
\<close>

record world =
  sends :: "smtp_call list"
  stdout :: "(string \<times> exn) list"

section \<open>Computations that raise and act on the world\<close>

type_synonym 'a io = "world \<Rightarrow> (exn + 'a) \<times> world"

definition return_io :: "'a \<Rightarrow> 'a io" where
  "return_io x w = (Inr x, w)"

definition raise :: "exn \<Rightarrow> 'a io" where
  "raise e w = (Inl e, w)"

definition bind_io :: "'a io \<Rightarrow> ('a \<Rightarrow> 'b io) \<Rightarrow> 'b io" where
  "bind_io m f w = (case m w of (Inl e, w') \<Rightarrow> (Inl e, w') | (Inr x, w') \<Rightarrow> f x w')"

text \<open>\<open>try: m except Exception as e: h e\<close>\<close>

definition try_except :: "'a io \<Rightarrow> (exn \<Rightarrow> 'a io) \<Rightarrow> 'a io" where
  "try_except m h w = (case m w of (Inl e, w') \<Rightarrow> h e w' | (Inr x, w') \<Rightarrow> (Inr x, w'))"

definition print :: "string \<Rightarrow> exn \<Rightarrow> unit io" where
  "print prefix e w = (Inr (), w\<lparr>stdout := stdout w @ [(prefix, e)]\<rparr>)"

text \<open>
  A call of \<open>aiosmtplib.send\<close> is one send attempt whatever its outcome: it is recorded,
  then it returns or raises as the relay decides.
\<close>

definition aiosmtplib_send :: "env \<Rightarrow> smtp_call \<Rightarrow> unit io" where
  "aiosmtplib_send ev c w =
     (case smtp ev c of Delivered \<Rightarrow> Inr () | Raised e \<Rightarrow> Inl e,
      w\<lparr>sends := sends w @ [c]\<rparr>)"

text \<open>
  \<open>MIMEText(html_content, "html")\<close>. Both bodies hold characters outside ASCII, so the
  part is encoded as UTF-8, with the error handler \<open>surrogateescape\<close> of
  \<open>Message.set_payload\<close>: a surrogate between \<open>U+DC80\<close> and \<open>U+DCFF\<close> is encoded as the
  byte it escapes, any other surrogate makes the constructor raise.
\<close>

definition encodes :: "nat \<Rightarrow> bool" where
  "encodes c = (c < 0xD800 \<or> 0xDFFF < c \<or> (0xDC80 \<le> c \<and> c \<le> 0xDCFF))"

definition encodable :: "str \<Rightarrow> bool" where
  "encodable t = list_all encodes t"

definition MIMEText :: "str \<Rightarrow> str io" where
  "MIMEText t = (if encodable t then return_io t else raise UnicodeEncodeError)"

section \<open>The two emails\<close>

text \<open>Truth value of an optional text in Python: \<open>None\<close> and \<open>""\<close> are false.\<close>

fun truthy :: "str option \<Rightarrow> bool" where
  "truthy None = False"
| "truthy (Some s) = (s \<noteq> [])"

text \<open>
  The body of the notification, from the template of \<open>send_notification_email\<close>:
  every field of the form and the time of receipt, between the fixed pieces of HTML.
\<close>

definition notification_html :: "env \<Rightarrow> ContactForm \<Rightarrow> str" where
  "notification_html ev f =
     lit ''
        <html>
        <body style=\"font-family: Arial, sans-serif; line-height: 1.6; color: #333;\">
            <div style=\"max-width: 600px; margin: 0 auto; padding: 20px;\">
                <h2 style=\"color: #7c3aed; border-bottom: 2px solid #7c3aed; padding-bottom: 10px;\">
                    ''
     @ [0x1F4EC]
     @ lit '' New Contact Form Submission
                </h2>
                
                <div style=\"background: #f8fafc; padding: 20px; border-radius: 8px; margin: 20px 0;\">
                    <table style=\"width: 100%; border-collapse: collapse;\">
                        <tr>
                            <td style=\"padding: 8px 0; font-weight: bold; color: #4a5568;\">Name:</td>
                            <td style=\"padding: 8px 0;\">''
     @ name f
     @ lit ''</td>
                        </tr>
                        <tr>
                            <td style=\"padding: 8px 0; font-weight: bold; color: #4a5568;\">Email:</td>
                            <td style=\"padding: 8px 0;\"><a href=\"mailto:''
     @ email f
     @ lit ''\">''
     @ email f
     @ lit ''</a></td>
                        </tr>
                        <tr>
                            <td style=\"padding: 8px 0; font-weight: bold; color: #4a5568;\">Company:</td>
                            <td style=\"padding: 8px 0;\">''
     @ (if company f = [] then lit ''Not specified'' else company f)
     @ lit ''</td>
                        </tr>
                        <tr>
                            <td style=\"padding: 8px 0; font-weight: bold; color: #4a5568;\">Subject:</td>
                            <td style=\"padding: 8px 0;\"><span style=\"background: #7c3aed; color: white; padding: 4px 8px; border-radius: 4px; font-size: 12px;\">''
     @ subject f
     @ lit ''</span></td>
                        </tr>
                    </table>
                </div>
                
                <div style=\"background: white; border: 1px solid #e2e8f0; border-radius: 8px; padding: 20px; margin: 20px 0;\">
                    <h3 style=\"margin-top: 0; color: #2d3748;\">Message:</h3>
                    <p style=\"white-space: pre-line; line-height: 1.6;\">''
     @ message f
     @ lit ''</p>
                </div>
                
                <div style=\"background: #edf2f7; padding: 15px; border-radius: 8px; margin: 20px 0; text-align: center;\">
                    <p style=\"margin: 0; font-size: 14px; color: #4a5568;\">
                        ''
     @ [0x1F4C5]
     @ lit '' Submitted on ''
     @ lit (now ev)
     @ lit ''
                    </p>
                    <p style=\"margin: 10px 0 0 0; font-size: 14px;\">
                        <a href=\"mailto:''
     @ email f
     @ lit ''?subject=Re: ''
     @ subject f
     @ lit ''\" 
                           style=\"background: #7c3aed; color: white; padding: 8px 16px; text-decoration: none; border-radius: 4px; display: inline-block;\">
                            ''
     @ [0x1F4E7]
     @ lit '' Reply to ''
     @ name f
     @ lit ''
                        </a>
                    </p>
                </div>
            </div>
        </body>
        </html>
        ''"

text \<open>The body of the confirmation, from the template of \<open>send_confirmation_email\<close>.\<close>

definition confirmation_html :: "ContactForm \<Rightarrow> str" where
  "confirmation_html f =
     lit ''
        <html>
        <body style=\"font-family: Arial, sans-serif; line-height: 1.6; color: #333;\">
            <div style=\"max-width: 600px; margin: 0 auto; padding: 20px;\">
                <h2 style=\"color: #10b981;\">''
     @ [0x2705]
     @ lit '' Thanks for reaching out, ''
     @ name f
     @ lit ''!</h2>
                
                <p>I've received your message about <strong>\"''
     @ subject f
     @ lit ''\"</strong> and will get back to you soon.</p>
                
                <div style=\"background: #f0f9ff; border-left: 4px solid #3b82f6; padding: 15px; margin: 20px 0;\">
                    <h4 style=\"margin-top: 0;\">Your message:</h4>
                    <p style=\"white-space: pre-line;\">''
     @ message f
     @ lit ''</p>
                </div>
                
                <p>I typically respond within <strong>24-48 hours</strong>.</p>
                
                <p>Best regards! ''
     @ [0x1F680]
     @ lit ''</p>
            </div>
        </body>
        </html>
        ''"

text \<open>
  The message of \<open>send_notification_email\<close> once its headers are assigned and before
  the body is attached.
\<close>

definition notification_message :: "config \<Rightarrow> ContactForm \<Rightarrow> MIMEMultipart" where
  "notification_message cfg f =
     \<lparr>Subject = Some ([0x1F514] @ lit '' New Contact Form: '' @ subject f),
      From = username cfg,
      To = RECIPIENT_EMAIL cfg,
      Reply_To = Some (email f),
      parts = []\<rparr>"

text \<open>The same for \<open>send_confirmation_email\<close>; this message has no reply-to.\<close>

definition confirmation_message :: "config \<Rightarrow> ContactForm \<Rightarrow> MIMEMultipart" where
  "confirmation_message cfg f =
     \<lparr>Subject = Some ([0x2705] @ lit '' Thanks for reaching out!''),
      From = username cfg,
      To = Some (email f),
      Reply_To = None,
      parts = []\<rparr>"

text \<open>Both functions hand their message to the relay with the same settings.\<close>

definition send_args :: "config \<Rightarrow> MIMEMultipart \<Rightarrow> smtp_call" where
  "send_args cfg m =
     \<lparr>msg = m,
      call_hostname = hostname cfg,
      call_port = port cfg,
      start_tls = True,
      call_username = username cfg,
      call_password = password cfg\<rparr>"

section \<open>The operations\<close>

text \<open>
  In both functions the \<open>try\<close> covers the construction of the message as well as the
  call of the relay: the headers are assigned, which never raises, the body is built
  and passed to \<open>MIMEText\<close>, which may raise, the part is attached and the message is
  sent.
\<close>

definition send_notification_email :: "config \<Rightarrow> env \<Rightarrow> ContactForm \<Rightarrow> bool io" where
  "send_notification_email cfg ev form_data =
     (if \<not> list_all truthy [username cfg, password cfg, RECIPIENT_EMAIL cfg]
      then raise (HTTPException 500
             ''Email configuration is incomplete. Check your environment variables.'')
      else try_except
             (bind_io (MIMEText (notification_html ev form_data)) (\<lambda>part.
              bind_io (aiosmtplib_send ev
                         (send_args cfg (attach (notification_message cfg form_data) part)))
                (\<lambda>_. return_io True)))
             (\<lambda>e. bind_io (print ''Email sending failed: '' e) (\<lambda>_. return_io False)))"

definition send_confirmation_email :: "config \<Rightarrow> env \<Rightarrow> ContactForm \<Rightarrow> bool io" where
  "send_confirmation_email cfg ev form_data =
     try_except
       (bind_io (MIMEText (confirmation_html form_data)) (\<lambda>part.
        bind_io (aiosmtplib_send ev
                   (send_args cfg (attach (confirmation_message cfg form_data) part)))
          (\<lambda>_. return_io True)))
       (\<lambda>e. bind_io (print ''Confirmation email failed: '' e) (\<lambda>_. return_io False))"

text \<open>The dictionary returned by \<open>submit_contact_form\<close>.\<close>

record details =
  notification_sent :: bool
  confirmation_sent :: bool

record reply =
  success :: bool
  reply_message :: string
  details :: details

definition submit_contact_form :: "config \<Rightarrow> env \<Rightarrow> ContactForm \<Rightarrow> reply io" where
  "submit_contact_form cfg ev form_data =
     try_except
       (bind_io (send_notification_email cfg ev form_data) (\<lambda>notification_sent.
          if \<not> notification_sent
          then raise (HTTPException 500 ''Failed to send notification email. Please try again.'')
          else bind_io (send_confirmation_email cfg ev form_data) (\<lambda>confirmation_sent.
                 return_io
                   \<lparr>success = True,
                    reply_message = ''Your message has been sent successfully!'',
                    details = \<lparr>notification_sent = notification_sent,
                               confirmation_sent = confirmation_sent\<rparr>\<rparr>)))
       (\<lambda>e. bind_io (print ''Unexpected error: '' e)
              (\<lambda>_. raise (HTTPException 500
                      ''An unexpected error occurred. Please try again later.'')))"

section \<open>The route \<open>POST /api/contact\<close>\<close>

text \<open>
  The JSON object of a request, field by field: \<open>None\<close> when the key is absent, the
  text when it is present.
\<close>

record request_body =
  body_name :: "str option"
  body_email :: "str option"
  body_company :: "str option"
  body_subject :: "str option"
  body_message :: "str option"

text \<open>
  The framework builds the \<open>ContactForm\<close> before it calls the handler. A field declared
  \<open>str\<close> with no default must be present and is taken as it is; \<open>company\<close> falls back
  to its default; \<open>email\<close>, declared \<open>EmailStr\<close>, goes through the address checker, a
  parameter here, which answers \<open>None\<close> for bad syntax and the address to store
  otherwise. The fields that fail are listed in the order of the class.
\<close>

definition field_error :: "string \<Rightarrow> str option \<Rightarrow> string list" where
  "field_error field v = (if v = None then [field] else [])"

definition validation_errors :: "(str \<Rightarrow> str option) \<Rightarrow> request_body \<Rightarrow> string list" where
  "validation_errors email_syntax b =
     field_error ''name'' (body_name b)
     @ field_error ''email'' (Option.bind (body_email b) email_syntax)
     @ field_error ''subject'' (body_subject b)
     @ field_error ''message'' (body_message b)"

definition validate_ContactForm ::
  "(str \<Rightarrow> str option) \<Rightarrow> request_body \<Rightarrow> string list + ContactForm" where
  "validate_ContactForm email_syntax b =
     (if validation_errors email_syntax b \<noteq> [] then Inl (validation_errors email_syntax b)
      else Inr \<lparr>name = the (body_name b),
                email = the (Option.bind (body_email b) email_syntax),
                company = (case body_company b of None \<Rightarrow> [] | Some c \<Rightarrow> c),
                subject = the (body_subject b),
                message = the (body_message b)\<rparr>)"

datatype response_body =
  Json reply
| Detail string
| Validation_errors "string list"
| Internal_Server_Error

record http_response =
  status :: nat
  content :: response_body

text \<open>
  A request that does not validate is answered 422 and the handler does not run; a
  value returned by the handler is answered 200; an \<open>HTTPException\<close> is answered with
  its own status and detail; any other exception leaving the handler is answered 500.
\<close>

definition post_api_contact ::
  "(str \<Rightarrow> str option) \<Rightarrow> config \<Rightarrow> env \<Rightarrow> request_body \<Rightarrow> world \<Rightarrow> http_response \<times> world"
where
  "post_api_contact email_syntax cfg ev b w =
     (case validate_ContactForm email_syntax b of
        Inl errs \<Rightarrow> (\<lparr>status = 422, content = Validation_errors errs\<rparr>, w)
      | Inr form_data \<Rightarrow>
          (case submit_contact_form cfg ev form_data w of
             (Inr r, w') \<Rightarrow> (\<lparr>status = 200, content = Json r\<rparr>, w')
           | (Inl (HTTPException code d), w') \<Rightarrow> (\<lparr>status = code, content = Detail d\<rparr>, w')
           | (Inl _, w') \<Rightarrow> (\<lparr>status = 500, content = Internal_Server_Error\<rparr>, w')))"

section \<open>Requests, a configuration and three relays to evaluate the service on\<close>

definition ada :: request_body where
  "ada = \<lparr>body_name = Some (lit ''Ada''), body_email = Some (lit ''ada@example.com''),
          body_company = Some [], body_subject = Some (lit ''Hello''),
          body_message = Some (lit ''Hi there'')\<rparr>"

text \<open>The form the stand-in checker below makes of it.\<close>

definition ada_form :: ContactForm where
  "ada_form = \<lparr>name = lit ''Ada'', email = lit ''ada@example.com'', company = [],
               subject = lit ''Hello'', message = lit ''Hi there''\<rparr>"

text \<open>The same form with the lone surrogate \<open>U+D800\<close> for a name.\<close>

definition surrogate_form :: ContactForm where
  "surrogate_form = ada_form\<lparr>name := [0xD800]\<rparr>"

definition example_config :: config where
  "example_config =
     \<lparr>hostname = lit ''smtp.gmail.com'', port = 587,
      username = Some (lit ''owner@example.com''),
      password = Some (lit ''app-password''),
      RECIPIENT_EMAIL = Some (lit ''inbox@example.com'')\<rparr>"

text \<open>A stand-in for the address checker: it asks for an \<open>@\<close> and stores the text unchanged.\<close>

definition at_sign_syntax :: "str \<Rightarrow> str option" where
  "at_sign_syntax s = (if of_char CHR ''@'' \<in> set s then Some s else None)"

definition relay_up :: env where
  "relay_up = \<lparr>smtp = (\<lambda>c. Delivered), now = ''November 04, 2026 at 12:30 PM''\<rparr>"

definition relay_down :: env where
  "relay_down =
     \<lparr>smtp = (\<lambda>c. Raised (TransportError ''Connection refused'')),
      now = ''November 04, 2026 at 12:30 PM''\<rparr>"

text \<open>A relay that delivers mail for the inbox of the site and refuses any other.\<close>

definition relay_inbox_only :: env where
  "relay_inbox_only =
     \<lparr>smtp = (\<lambda>c. if To (msg c) = Some (lit ''inbox@example.com'') then Delivered
                   else Raised (TransportError ''Recipient refused'')),
      now = ''November 04, 2026 at 12:30 PM''\<rparr>"

definition fresh_world :: world where
  "fresh_world = \<lparr>sends = [], stdout = []\<rparr>"

section \<open>What each operation computes\<close>

lemmas io_defs = return_io_def raise_def bind_io_def try_except_def print_def aiosmtplib_send_def

lemma encodable_append: "encodable (s @ t) = (encodable s \<and> encodable t)"
  by (simp add: encodable_def)

lemma encodable_lit: "encodable (lit s)"
proof -
  have "encodes (of_char c)" for c :: char
  proof -
    have "of_char c < (256::nat)"
      by (rule nat_of_char_less_256)
    then have "of_char c < (0xD800::nat)"
      by linarith
    then show ?thesis
      by (simp add: encodes_def)
  qed
  then show ?thesis
    by (simp add: encodable_def lit_def list_all_iff)
qed

lemma encodable_Nil: "encodable []"
  by (simp add: encodable_def)

lemma encodable_Cons: "encodable (c # t) = (encodes c \<and> encodable t)"
  by (simp add: encodable_def)

lemma encodable_notification_html:
  "encodable (notification_html ev f) =
     (encodable (name f) \<and> encodable (email f) \<and> encodable (company f)
      \<and> encodable (subject f) \<and> encodable (message f))"
proof -
  have e: "encodes 0x1F4EC" "encodes 0x1F4C5" "encodes 0x1F4E7"
    by (simp_all add: encodes_def)
  show ?thesis
    by (auto simp add: notification_html_def encodable_append encodable_Cons encodable_Nil
        encodable_lit e)
qed

lemma encodable_confirmation_html:
  "encodable (confirmation_html f) =
     (encodable (name f) \<and> encodable (subject f) \<and> encodable (message f))"
proof -
  have e: "encodes 0x2705" "encodes 0x1F680"
    by (simp_all add: encodes_def)
  show ?thesis
    by (auto simp add: confirmation_html_def encodable_append encodable_Cons encodable_lit e)
qed

lemma confirmation_encodable:
  "encodable (notification_html ev f) \<Longrightarrow> encodable (confirmation_html f)"
  by (simp add: encodable_notification_html encodable_confirmation_html)

lemma send_notification_email_incomplete:
  "\<not> (truthy (username cfg) \<and> truthy (password cfg) \<and> truthy (RECIPIENT_EMAIL cfg)) \<Longrightarrow>
   send_notification_email cfg ev f w =
     (Inl (HTTPException 500
        ''Email configuration is incomplete. Check your environment variables.''), w)"
  by (auto simp add: send_notification_email_def raise_def)

lemma send_notification_email_unencodable:
  "truthy (username cfg) \<Longrightarrow> truthy (password cfg) \<Longrightarrow> truthy (RECIPIENT_EMAIL cfg) \<Longrightarrow>
   \<not> encodable (notification_html ev f) \<Longrightarrow>
   send_notification_email cfg ev f w =
     (Inr False, w\<lparr>stdout := stdout w @ [(''Email sending failed: '', UnicodeEncodeError)]\<rparr>)"
  by (simp add: send_notification_email_def MIMEText_def io_defs)

lemma send_notification_email_delivered:
  "truthy (username cfg) \<Longrightarrow> truthy (password cfg) \<Longrightarrow> truthy (RECIPIENT_EMAIL cfg) \<Longrightarrow>
   encodable (notification_html ev f) \<Longrightarrow>
   smtp ev (send_args cfg (attach (notification_message cfg f) (notification_html ev f)))
     = Delivered \<Longrightarrow>
   send_notification_email cfg ev f w =
     (Inr True,
      w\<lparr>sends := sends w
          @ [send_args cfg (attach (notification_message cfg f) (notification_html ev f))]\<rparr>)"
  by (simp add: send_notification_email_def MIMEText_def io_defs)

lemma send_notification_email_raised:
  "truthy (username cfg) \<Longrightarrow> truthy (password cfg) \<Longrightarrow> truthy (RECIPIENT_EMAIL cfg) \<Longrightarrow>
   encodable (notification_html ev f) \<Longrightarrow>
   smtp ev (send_args cfg (attach (notification_message cfg f) (notification_html ev f)))
     = Raised e \<Longrightarrow>
   send_notification_email cfg ev f w =
     (Inr False,
      w\<lparr>sends := sends w
          @ [send_args cfg (attach (notification_message cfg f) (notification_html ev f))],
        stdout := stdout w @ [(''Email sending failed: '', e)]\<rparr>)"
  by (simp add: send_notification_email_def MIMEText_def io_defs)

lemma send_confirmation_email_unencodable:
  "\<not> encodable (confirmation_html f) \<Longrightarrow>
   send_confirmation_email cfg ev f w =
     (Inr False,
      w\<lparr>stdout := stdout w @ [(''Confirmation email failed: '', UnicodeEncodeError)]\<rparr>)"
  by (simp add: send_confirmation_email_def MIMEText_def io_defs)

lemma send_confirmation_email_delivered:
  "encodable (confirmation_html f) \<Longrightarrow>
   smtp ev (send_args cfg (attach (confirmation_message cfg f) (confirmation_html f)))
     = Delivered \<Longrightarrow>
   send_confirmation_email cfg ev f w =
     (Inr True,
      w\<lparr>sends := sends w
          @ [send_args cfg (attach (confirmation_message cfg f) (confirmation_html f))]\<rparr>)"
  by (simp add: send_confirmation_email_def MIMEText_def io_defs)

lemma send_confirmation_email_raised:
  "encodable (confirmation_html f) \<Longrightarrow>
   smtp ev (send_args cfg (attach (confirmation_message cfg f) (confirmation_html f)))
     = Raised e \<Longrightarrow>
   send_confirmation_email cfg ev f w =
     (Inr False,
      w\<lparr>sends := sends w
          @ [send_args cfg (attach (confirmation_message cfg f) (confirmation_html f))],
        stdout := stdout w @ [(''Confirmation email failed: '', e)]\<rparr>)"
  by (simp add: send_confirmation_email_def MIMEText_def io_defs)

text \<open>The handler, from what its two steps return.\<close>

lemma submit_contact_form_raised:
  "send_notification_email cfg ev f w = (Inl e, w1) \<Longrightarrow>
   submit_contact_form cfg ev f w =
     (Inl (HTTPException 500 ''An unexpected error occurred. Please try again later.''),
      w1\<lparr>stdout := stdout w1 @ [(''Unexpected error: '', e)]\<rparr>)"
  by (simp add: submit_contact_form_def bind_io_def try_except_def print_def raise_def)

lemma submit_contact_form_not_sent:
  "send_notification_email cfg ev f w = (Inr False, w1) \<Longrightarrow>
   submit_contact_form cfg ev f w =
     (Inl (HTTPException 500 ''An unexpected error occurred. Please try again later.''),
      w1\<lparr>stdout := stdout w1 @ [(''Unexpected error: '',
          HTTPException 500 ''Failed to send notification email. Please try again.'')]\<rparr>)"
  by (simp add: submit_contact_form_def bind_io_def try_except_def print_def raise_def)

lemma send_confirmation_email_returns:
  "\<exists>c w2. send_confirmation_email cfg ev f w1 = (Inr c, w2)"
proof (cases "encodable (confirmation_html f)")
  case False
  then show ?thesis
    by (auto simp add: send_confirmation_email_unencodable)
next
  case True
  show ?thesis
    by (cases "smtp ev (send_args cfg (attach (confirmation_message cfg f)
          (confirmation_html f)))")
      (auto simp add: send_confirmation_email_delivered send_confirmation_email_raised True)
qed

lemma submit_contact_form_sent:
  "send_notification_email cfg ev f w = (Inr True, w1) \<Longrightarrow>
   send_confirmation_email cfg ev f w1 = (Inr c, w2) \<Longrightarrow>
   submit_contact_form cfg ev f w =
     (Inr \<lparr>success = True,
           reply_message = ''Your message has been sent successfully!'',
           details = \<lparr>notification_sent = True, confirmation_sent = c\<rparr>\<rparr>, w2)"
  by (simp add: submit_contact_form_def bind_io_def try_except_def return_io_def)

lemma submit_contact_form_incomplete:
  "\<not> (truthy (username cfg) \<and> truthy (password cfg) \<and> truthy (RECIPIENT_EMAIL cfg)) \<Longrightarrow>
   submit_contact_form cfg ev f w =
     (Inl (HTTPException 500 ''An unexpected error occurred. Please try again later.''),
      w\<lparr>stdout := stdout w @ [(''Unexpected error: '', HTTPException 500
        ''Email configuration is incomplete. Check your environment variables.'')]\<rparr>)"
  by (rule submit_contact_form_raised) (rule send_notification_email_incomplete)

text \<open>The examples.\<close>

lemma validate_ada: "validate_ContactForm at_sign_syntax ada = Inr ada_form"
  by (simp add: validate_ContactForm_def validation_errors_def field_error_def
      at_sign_syntax_def ada_def ada_form_def lit_def)

lemma example_config_complete:
  "truthy (username example_config)" "truthy (password example_config)"
  "truthy (RECIPIENT_EMAIL example_config)"
  by (simp_all add: example_config_def lit_def)

lemma ada_form_encodable: "encodable (notification_html ev ada_form)"
  by (simp add: encodable_notification_html ada_form_def encodable_lit encodable_Nil)

lemma surrogate_form_unencodable:
  "\<not> encodable (notification_html ev surrogate_form)"
  "\<not> encodable (confirmation_html surrogate_form)"
proof -
  have s: "\<not> encodable (name surrogate_form)"
    by (simp add: surrogate_form_def encodable_def encodes_def)
  show "\<not> encodable (notification_html ev surrogate_form)"
    by (simp add: encodable_notification_html s)
  show "\<not> encodable (confirmation_html surrogate_form)"
    by (simp add: encodable_confirmation_html s)
qed

lemma relay_up_delivers: "smtp relay_up c = Delivered"
  by (simp add: relay_up_def)

lemma relay_down_raises: "smtp relay_down c = Raised (TransportError ''Connection refused'')"
  by (simp add: relay_down_def)

lemma relay_inbox_only_notification:
  "smtp relay_inbox_only (send_args example_config (attach (notification_message example_config f) p))
     = Delivered"
  by (simp add: relay_inbox_only_def send_args_def attach_def notification_message_def
      example_config_def)

lemma relay_inbox_only_confirmation:
  "smtp relay_inbox_only
     (send_args example_config (attach (confirmation_message example_config ada_form) p))
     = Raised (TransportError ''Recipient refused'')"
  by (simp add: relay_inbox_only_def send_args_def attach_def confirmation_message_def
      ada_form_def lit_def)

text \<open>
  Whatever makes the handler fail, the answer is the same: the handler of
  \<open>except Exception\<close> in \<open>submit_contact_form\<close> also catches the \<open>HTTPException\<close>s raised
  inside its own \<open>try\<close> and replaces them.
\<close>

lemma post_api_contact_500_detail:
  assumes "status (fst (post_api_contact email_syntax cfg ev b w)) = 500"
  shows "content (fst (post_api_contact email_syntax cfg ev b w))
      = Detail ''An unexpected error occurred. Please try again later.''"
proof (cases "validate_ContactForm email_syntax b")
  case (Inl errs)
  with assms show ?thesis
    by (simp add: post_api_contact_def)
next
  case (Inr f)
  obtain r w1 where n: "send_notification_email cfg ev f w = (r, w1)"
    by (cases "send_notification_email cfg ev f w")
  show ?thesis
  proof (cases r)
    case (Inl e)
    with n Inr show ?thesis
      by (simp add: post_api_contact_def submit_contact_form_raised)
  next
    case r: (Inr sent)
    show ?thesis
    proof (cases sent)
      case False
      with n r Inr show ?thesis
        by (simp add: post_api_contact_def submit_contact_form_not_sent)
    next
      case True
      obtain c w2 where "send_confirmation_email cfg ev f w1 = (Inr c, w2)"
        using send_confirmation_email_returns by blast
      with n r True have "submit_contact_form cfg ev f w =
          (Inr \<lparr>success = True,
                reply_message = ''Your message has been sent successfully!'',
                details = \<lparr>notification_sent = True, confirmation_sent = c\<rparr>\<rparr>, w2)"
        by (simp add: submit_contact_form_sent)
      with assms Inr show ?thesis
        by (simp add: post_api_contact_def)
    qed
  qed
qed

text \<open>
  A name with a lone surrogate in it: the notification is never handed to the relay,
  and the request is answered 500.
\<close>

lemma surrogate_name_not_sent:
  "validate_ContactForm email_syntax b = Inr surrogate_form \<Longrightarrow>
   status (fst (post_api_contact email_syntax example_config ev b w)) = 500
   \<and> sends (snd (post_api_contact email_syntax example_config ev b w)) = sends w"
  by (simp add: post_api_contact_def
      submit_contact_form_not_sent [OF send_notification_email_unencodable
        [OF example_config_complete surrogate_form_unencodable(1)]])

section \<open>The claims of the specification\<close>

text \<open>
  C1. The specification promises a detail message of its own for each cause of a 500
  answer: incomplete configuration, failed notification, any other error. Evaluated on
  the code, a request under a configuration without user name and a request whose
  notification the relay refuses are answered alike, with the third, generic message:
  the two specific messages are raised inside the \<open>try\<close> of \<open>submit_contact_form\<close> and
  never leave it.
\<close>

theorem C1_failure_details_coincide:
  "fst (post_api_contact at_sign_syntax (example_config\<lparr>username := None\<rparr>) relay_up ada
          fresh_world)
     = \<lparr>status = 500,
        content = Detail ''An unexpected error occurred. Please try again later.''\<rparr>
   \<and> fst (post_api_contact at_sign_syntax example_config relay_down ada fresh_world)
     = \<lparr>status = 500,
        content = Detail ''An unexpected error occurred. Please try again later.''\<rparr>"
proof -
  have a: "\<not> (truthy (username (example_config\<lparr>username := None\<rparr>))
      \<and> truthy (password (example_config\<lparr>username := None\<rparr>))
      \<and> truthy (RECIPIENT_EMAIL (example_config\<lparr>username := None\<rparr>)))"
    by simp
  show ?thesis
    by (simp add: post_api_contact_def validate_ada submit_contact_form_incomplete [OF a]
        submit_contact_form_not_sent [OF send_notification_email_raised
          [OF example_config_complete ada_form_encodable relay_down_raises]])
qed

text \<open>
  C2, as the specification states it: a submission with an empty required text field is
  rejected before any send. On the code the claim fails: \<open>name\<close> is declared \<open>str\<close>,
  which the empty text satisfies, so the request of Ada with the name \<open>""\<close> is answered
  200 after both emails were handed to the relay.
\<close>

theorem C2_empty_name_is_sent:
  "body_name (ada\<lparr>body_name := Some []\<rparr>) = Some []
   \<and> status (fst (post_api_contact at_sign_syntax example_config relay_up
         (ada\<lparr>body_name := Some []\<rparr>) fresh_world)) = 200
   \<and> length (sends (snd (post_api_contact at_sign_syntax example_config relay_up
         (ada\<lparr>body_name := Some []\<rparr>) fresh_world))) = 2"
proof -
  have v: "validate_ContactForm at_sign_syntax (ada\<lparr>body_name := Some []\<rparr>) =
      Inr (ada_form\<lparr>name := []\<rparr>)"
    by (simp add: validate_ContactForm_def validation_errors_def field_error_def
        at_sign_syntax_def ada_def ada_form_def lit_def)
  have e: "encodable (notification_html relay_up (ada_form\<lparr>name := []\<rparr>))"
    by (simp add: encodable_notification_html ada_form_def encodable_lit encodable_Nil)
  note n = send_notification_email_delivered [OF example_config_complete e relay_up_delivers]
  note c = send_confirmation_email_delivered [OF confirmation_encodable [OF e] relay_up_delivers]
  show ?thesis
    by (simp add: post_api_contact_def v submit_contact_form_sent [OF n c] fresh_world_def)
qed

text \<open>
  C2, amended: a submission in which a required text field (name, subject or message) is
  absent from the request is answered 422, a client error, and nothing else happens: no
  send is attempted and nothing is printed.
\<close>

theorem C2_missing_field_rejected:
  assumes "body_name b = None \<or> body_subject b = None \<or> body_message b = None"
  shows "status (fst (post_api_contact email_syntax cfg ev b w)) = 422
    \<and> snd (post_api_contact email_syntax cfg ev b w) = w"
proof -
  from assms have "validation_errors email_syntax b \<noteq> []"
    by (auto simp add: validation_errors_def field_error_def)
  then show ?thesis
    by (simp add: post_api_contact_def validate_ContactForm_def)
qed

theorem C2_missing_field_rejected_witness:
  "body_name (ada\<lparr>body_name := None\<rparr>) = None
   \<and> status (fst (post_api_contact at_sign_syntax example_config relay_up
        (ada\<lparr>body_name := None\<rparr>) fresh_world)) = 422
   \<and> snd (post_api_contact at_sign_syntax example_config relay_up
        (ada\<lparr>body_name := None\<rparr>) fresh_world) = \<lparr>sends = [], stdout = []\<rparr>"
  using C2_missing_field_rejected [of "ada\<lparr>body_name := None\<rparr>" at_sign_syntax
      example_config relay_up fresh_world]
  by (simp add: fresh_world_def)

text \<open>
  C3. When the notification is handed to the relay (the configuration is complete and
  the body can be encoded) and the relay raises, whatever the exception, the request is
  answered 500 and the notification is the only send attempted: the confirmation is
  never handed to the relay.
\<close>

theorem C3_notification_failure_stops:
  assumes "validate_ContactForm email_syntax b = Inr f"
    and "truthy (username cfg)" and "truthy (password cfg)" and "truthy (RECIPIENT_EMAIL cfg)"
    and "encodable (notification_html ev f)"
    and "smtp ev (send_args cfg (attach (notification_message cfg f) (notification_html ev f)))
           = Raised e"
  shows "status (fst (post_api_contact email_syntax cfg ev b w)) = 500
    \<and> sends (snd (post_api_contact email_syntax cfg ev b w))
        = sends w @ [send_args cfg (attach (notification_message cfg f) (notification_html ev f))]"
  by (simp add: post_api_contact_def assms(1)
      submit_contact_form_not_sent [OF send_notification_email_raised [OF assms(2-6)]])

theorem C3_notification_failure_stops_witness:
  "status (fst (post_api_contact at_sign_syntax example_config relay_down ada fresh_world)) = 500
   \<and> map (Subject \<circ> msg)
        (sends (snd (post_api_contact at_sign_syntax example_config relay_down ada fresh_world)))
     = [Some ([0x1F514] @ lit '' New Contact Form: '' @ lit ''Hello'')]"
  using C3_notification_failure_stops [OF validate_ada example_config_complete
      ada_form_encodable relay_down_raises, of fresh_world]
  by (simp add: fresh_world_def send_args_def attach_def notification_message_def ada_form_def)

text \<open>
  C4. When the notification is sent (the configuration is complete, the body can be
  encoded and the relay delivers it) and the relay raises on the confirmation, the
  request is still answered 200 with \<open>success\<close> true, \<open>notification_sent\<close> true and
  \<open>confirmation_sent\<close> false; the failure is only printed.
\<close>

theorem C4_confirmation_failure_tolerated:
  assumes "validate_ContactForm email_syntax b = Inr f"
    and "truthy (username cfg)" and "truthy (password cfg)" and "truthy (RECIPIENT_EMAIL cfg)"
    and "encodable (notification_html ev f)"
    and "smtp ev (send_args cfg (attach (notification_message cfg f) (notification_html ev f)))
           = Delivered"
    and "smtp ev (send_args cfg (attach (confirmation_message cfg f) (confirmation_html f)))
           = Raised e"
  shows "fst (post_api_contact email_syntax cfg ev b w)
      = \<lparr>status = 200,
         content = Json \<lparr>success = True,
           reply_message = ''Your message has been sent successfully!'',
           details = \<lparr>notification_sent = True, confirmation_sent = False\<rparr>\<rparr>\<rparr>
    \<and> stdout (snd (post_api_contact email_syntax cfg ev b w))
      = stdout w @ [(''Confirmation email failed: '', e)]"
proof -
  note n = send_notification_email_delivered [OF assms(2-6)]
  note c = send_confirmation_email_raised [OF confirmation_encodable [OF assms(5)] assms(7)]
  show ?thesis
    by (simp add: post_api_contact_def assms(1) submit_contact_form_sent [OF n c])
qed

theorem C4_confirmation_failure_tolerated_witness:
  "fst (post_api_contact at_sign_syntax example_config relay_inbox_only ada fresh_world)
     = \<lparr>status = 200,
        content = Json \<lparr>success = True,
          reply_message = ''Your message has been sent successfully!'',
          details = \<lparr>notification_sent = True, confirmation_sent = False\<rparr>\<rparr>\<rparr>
   \<and> stdout (snd (post_api_contact at_sign_syntax example_config relay_inbox_only ada
        fresh_world))
     = [(''Confirmation email failed: '', TransportError ''Recipient refused'')]"
  using C4_confirmation_failure_tolerated [OF validate_ada example_config_complete
      ada_form_encodable relay_inbox_only_notification relay_inbox_only_confirmation,
      of fresh_world]
  by (simp add: fresh_world_def)

text \<open>
  C5. When the user name, the password or the recipient is missing or empty,
  \<open>send_notification_email\<close> raises the configuration error (status 500) without
  touching the relay, and the request is answered 500 with no send attempted.
\<close>

theorem C5_incomplete_configuration_sends_nothing:
  assumes "\<not> truthy (username cfg) \<or> \<not> truthy (password cfg) \<or> \<not> truthy (RECIPIENT_EMAIL cfg)"
    and "validate_ContactForm email_syntax b = Inr f"
  shows "send_notification_email cfg ev f w
      = (Inl (HTTPException 500
          ''Email configuration is incomplete. Check your environment variables.''), w)
    \<and> status (fst (post_api_contact email_syntax cfg ev b w)) = 500
    \<and> sends (snd (post_api_contact email_syntax cfg ev b w)) = sends w"
proof -
  from assms(1)
  have n: "\<not> (truthy (username cfg) \<and> truthy (password cfg) \<and> truthy (RECIPIENT_EMAIL cfg))"
    by blast
  show ?thesis
    by (simp add: post_api_contact_def assms(2) send_notification_email_incomplete [OF n]
        submit_contact_form_incomplete [OF n])
qed

theorem C5_incomplete_configuration_sends_nothing_witness:
  "(status (fst (post_api_contact at_sign_syntax (example_config\<lparr>username := None\<rparr>)
       relay_up ada fresh_world)) = 500
    \<and> sends (snd (post_api_contact at_sign_syntax (example_config\<lparr>username := None\<rparr>)
       relay_up ada fresh_world)) = [])
   \<and> (status (fst (post_api_contact at_sign_syntax (example_config\<lparr>password := Some []\<rparr>)
       relay_up ada fresh_world)) = 500
    \<and> sends (snd (post_api_contact at_sign_syntax (example_config\<lparr>password := Some []\<rparr>)
       relay_up ada fresh_world)) = [])
   \<and> (status (fst (post_api_contact at_sign_syntax (example_config\<lparr>RECIPIENT_EMAIL := None\<rparr>)
       relay_up ada fresh_world)) = 500
    \<and> sends (snd (post_api_contact at_sign_syntax (example_config\<lparr>RECIPIENT_EMAIL := None\<rparr>)
       relay_up ada fresh_world)) = [])"
proof -
  have u: "\<not> truthy (username (example_config\<lparr>username := None\<rparr>))
      \<or> \<not> truthy (password (example_config\<lparr>username := None\<rparr>))
      \<or> \<not> truthy (RECIPIENT_EMAIL (example_config\<lparr>username := None\<rparr>))"
    by simp
  have p: "\<not> truthy (username (example_config\<lparr>password := Some []\<rparr>))
      \<or> \<not> truthy (password (example_config\<lparr>password := Some []\<rparr>))
      \<or> \<not> truthy (RECIPIENT_EMAIL (example_config\<lparr>password := Some []\<rparr>))"
    by simp
  have r: "\<not> truthy (username (example_config\<lparr>RECIPIENT_EMAIL := None\<rparr>))
      \<or> \<not> truthy (password (example_config\<lparr>RECIPIENT_EMAIL := None\<rparr>))
      \<or> \<not> truthy (RECIPIENT_EMAIL (example_config\<lparr>RECIPIENT_EMAIL := None\<rparr>))"
    by simp
  show ?thesis
    using C5_incomplete_configuration_sends_nothing [OF u validate_ada, of relay_up fresh_world]
      C5_incomplete_configuration_sends_nothing [OF p validate_ada, of relay_up fresh_world]
      C5_incomplete_configuration_sends_nothing [OF r validate_ada, of relay_up fresh_world]
    by (simp add: fresh_world_def)
qed

text \<open>
  C6. A submission whose email field the address checker refuses is answered 422 and no
  send is attempted.
\<close>

theorem C6_invalid_email_rejected:
  assumes "body_email b = Some e" and "email_syntax e = None"
  shows "status (fst (post_api_contact email_syntax cfg ev b w)) = 422
    \<and> sends (snd (post_api_contact email_syntax cfg ev b w)) = sends w"
proof -
  from assms have "validation_errors email_syntax b \<noteq> []"
    by (simp add: validation_errors_def field_error_def)
  then show ?thesis
    by (simp add: post_api_contact_def validate_ContactForm_def)
qed

theorem C6_invalid_email_rejected_witness:
  "body_email (ada\<lparr>body_email := Some (lit ''not-an-email'')\<rparr>) = Some (lit ''not-an-email'')
   \<and> at_sign_syntax (lit ''not-an-email'') = None
   \<and> status (fst (post_api_contact at_sign_syntax example_config relay_up
        (ada\<lparr>body_email := Some (lit ''not-an-email'')\<rparr>) fresh_world)) = 422
   \<and> sends (snd (post_api_contact at_sign_syntax example_config relay_up
        (ada\<lparr>body_email := Some (lit ''not-an-email'')\<rparr>) fresh_world)) = []"
proof -
  have h1: "body_email (ada\<lparr>body_email := Some (lit ''not-an-email'')\<rparr>)
      = Some (lit ''not-an-email'')"
    by simp
  have h2: "at_sign_syntax (lit ''not-an-email'') = None"
    by (simp add: at_sign_syntax_def lit_def)
  show ?thesis
    using h1 h2 C6_invalid_email_rejected
        [where b = "ada\<lparr>body_email := Some (lit ''not-an-email'')\<rparr>"
          and e = "lit ''not-an-email''" and email_syntax = at_sign_syntax
          and cfg = example_config and ev = relay_up and w = fresh_world]
    by (simp add: fresh_world_def)
qed

text \<open>
  C7. The submission of Ada (name \<open>Ada\<close>, email \<open>ada@example.com\<close>, company empty,
  subject \<open>Hello\<close>, message \<open>Hi there\<close>), under a complete configuration and a relay
  that delivers both emails, is answered 200 with exactly \<open>success\<close> true, the message
  \<open>Your message has been sent successfully!\<close> and both flags true. The address is
  taken to pass the address checker, in whatever form the checker stores it, provided
  that form has no surrogate that would stop the notification from being built.
\<close>

theorem C7_ada_scenario:
  assumes "email_syntax (lit ''ada@example.com'') = Some a" and "encodable a"
    and "truthy (username cfg)" and "truthy (password cfg)" and "truthy (RECIPIENT_EMAIL cfg)"
    and "smtp ev (send_args cfg (attach
           (notification_message cfg
              \<lparr>name = lit ''Ada'', email = a, company = [], subject = lit ''Hello'',
               message = lit ''Hi there''\<rparr>)
           (notification_html ev
              \<lparr>name = lit ''Ada'', email = a, company = [], subject = lit ''Hello'',
               message = lit ''Hi there''\<rparr>))) = Delivered"
    and "smtp ev (send_args cfg (attach
           (confirmation_message cfg
              \<lparr>name = lit ''Ada'', email = a, company = [], subject = lit ''Hello'',
               message = lit ''Hi there''\<rparr>)
           (confirmation_html
              \<lparr>name = lit ''Ada'', email = a, company = [], subject = lit ''Hello'',
               message = lit ''Hi there''\<rparr>))) = Delivered"
  shows "fst (post_api_contact email_syntax cfg ev
           \<lparr>body_name = Some (lit ''Ada''), body_email = Some (lit ''ada@example.com''),
            body_company = Some [], body_subject = Some (lit ''Hello''),
            body_message = Some (lit ''Hi there'')\<rparr> w)
      = \<lparr>status = 200,
         content = Json \<lparr>success = True,
           reply_message = ''Your message has been sent successfully!'',
           details = \<lparr>notification_sent = True, confirmation_sent = True\<rparr>\<rparr>\<rparr>"
proof -
  have v: "validate_ContactForm email_syntax
      \<lparr>body_name = Some (lit ''Ada''), body_email = Some (lit ''ada@example.com''),
       body_company = Some [], body_subject = Some (lit ''Hello''),
       body_message = Some (lit ''Hi there'')\<rparr>
      = Inr \<lparr>name = lit ''Ada'', email = a, company = [], subject = lit ''Hello'',
             message = lit ''Hi there''\<rparr>"
    by (simp add: validate_ContactForm_def validation_errors_def field_error_def assms(1))
  have e: "encodable (notification_html ev
      \<lparr>name = lit ''Ada'', email = a, company = [], subject = lit ''Hello'',
       message = lit ''Hi there''\<rparr>)"
    by (simp add: encodable_notification_html encodable_lit encodable_Nil assms(2))
  note n = send_notification_email_delivered [OF assms(3-5) e assms(6)]
  note c = send_confirmation_email_delivered [OF confirmation_encodable [OF e] assms(7)]
  show ?thesis
    by (simp add: post_api_contact_def v submit_contact_form_sent [OF n c])
qed

theorem C7_ada_scenario_witness:
  "at_sign_syntax (lit ''ada@example.com'') = Some (lit ''ada@example.com'')
   \<and> fst (post_api_contact at_sign_syntax example_config relay_up
        \<lparr>body_name = Some (lit ''Ada''), body_email = Some (lit ''ada@example.com''),
         body_company = Some [], body_subject = Some (lit ''Hello''),
         body_message = Some (lit ''Hi there'')\<rparr> fresh_world)
     = \<lparr>status = 200,
        content = Json \<lparr>success = True,
          reply_message = ''Your message has been sent successfully!'',
          details = \<lparr>notification_sent = True, confirmation_sent = True\<rparr>\<rparr>\<rparr>"
proof -
  have a: "at_sign_syntax (lit ''ada@example.com'') = Some (lit ''ada@example.com'')"
    by (simp add: at_sign_syntax_def lit_def)
  show ?thesis
    using a C7_ada_scenario [where email_syntax = at_sign_syntax
        and a = "lit ''ada@example.com''" and cfg = example_config and ev = relay_up
        and w = fresh_world]
    by (simp add: example_config_complete relay_up_delivers encodable_lit)
qed

text \<open>
  C8. Every message that \<open>send_notification_email\<close> hands to the relay has the
  configured recipient as \<open>To\<close>, the email of the submission as \<open>Reply-To\<close>, and as
  \<open>Subject\<close> the fixed marker (a bell and \<open>New Contact Form:\<close>) followed by the subject
  of the submission. It hands over one such message when the configuration is complete
  and the body can be encoded, and none otherwise.
\<close>

theorem C8_notification_headers:
  "\<exists>cs. sends (snd (send_notification_email cfg ev f w)) = sends w @ cs
      \<and> list_all (\<lambda>c. To (msg c) = RECIPIENT_EMAIL cfg
            \<and> Reply_To (msg c) = Some (email f)
            \<and> Subject (msg c) = Some ([0x1F514] @ lit '' New Contact Form: '' @ subject f)) cs
      \<and> length cs
          = (if truthy (username cfg) \<and> truthy (password cfg) \<and> truthy (RECIPIENT_EMAIL cfg)
                \<and> encodable (notification_html ev f) then 1 else 0)"
proof (cases "truthy (username cfg) \<and> truthy (password cfg) \<and> truthy (RECIPIENT_EMAIL cfg)")
  case False
  then show ?thesis
    by (auto simp add: send_notification_email_incomplete [OF False])
next
  case True
  then have t: "truthy (username cfg)" "truthy (password cfg)" "truthy (RECIPIENT_EMAIL cfg)"
    by simp_all
  show ?thesis
  proof (cases "encodable (notification_html ev f)")
    case False
    then show ?thesis
      by (simp add: send_notification_email_unencodable [OF t])
  next
    case e: True
    show ?thesis
    proof (cases "smtp ev (send_args cfg (attach (notification_message cfg f)
        (notification_html ev f)))")
      case Delivered
      show ?thesis
        by (simp add: send_notification_email_delivered [OF t e Delivered] t e
            send_args_def attach_def notification_message_def)
    next
      case (Raised x)
      show ?thesis
        by (simp add: send_notification_email_raised [OF t e Raised] t e
            send_args_def attach_def notification_message_def)
    qed
  qed
qed

theorem C8_notification_headers_witness:
  "\<exists>c. sends (snd (send_notification_email example_config relay_up ada_form fresh_world)) = [c]
      \<and> To (msg c) = Some (lit ''inbox@example.com'')
      \<and> Reply_To (msg c) = Some (lit ''ada@example.com'')
      \<and> Subject (msg c) = Some ([0x1F514] @ lit '' New Contact Form: '' @ lit ''Hello'')"
proof -
  obtain cs where
    s: "sends (snd (send_notification_email example_config relay_up ada_form fresh_world))
        = sends fresh_world @ cs"
    and h: "list_all (\<lambda>c. To (msg c) = RECIPIENT_EMAIL example_config
            \<and> Reply_To (msg c) = Some (email ada_form)
            \<and> Subject (msg c)
                = Some ([0x1F514] @ lit '' New Contact Form: '' @ subject ada_form)) cs"
    and l: "length cs
        = (if truthy (username example_config) \<and> truthy (password example_config)
              \<and> truthy (RECIPIENT_EMAIL example_config)
              \<and> encodable (notification_html relay_up ada_form) then 1 else 0)"
    using C8_notification_headers [of example_config relay_up ada_form fresh_world] by blast
  from l have "length cs = 1"
    by (simp add: example_config_complete ada_form_encodable)
  then obtain c where c: "cs = [c]"
    by (cases cs) simp_all
  from s h show ?thesis
    by (simp add: c fresh_world_def example_config_def ada_form_def)
qed

text \<open>
  C9. Every answer with status 200 carries \<open>success\<close> true and \<open>notification_sent\<close>
  true; only \<open>confirmation_sent\<close> varies.
\<close>

theorem C9_success_implies_notified:
  assumes "status (fst (post_api_contact email_syntax cfg ev b w)) = 200"
  shows "\<exists>c. content (fst (post_api_contact email_syntax cfg ev b w))
      = Json \<lparr>success = True,
          reply_message = ''Your message has been sent successfully!'',
          details = \<lparr>notification_sent = True, confirmation_sent = c\<rparr>\<rparr>"
proof (cases "validate_ContactForm email_syntax b")
  case (Inl errs)
  with assms show ?thesis
    by (simp add: post_api_contact_def)
next
  case (Inr f)
  obtain r w1 where n: "send_notification_email cfg ev f w = (r, w1)"
    by (cases "send_notification_email cfg ev f w")
  show ?thesis
  proof (cases r)
    case (Inl e)
    with assms n Inr show ?thesis
      by (simp add: post_api_contact_def submit_contact_form_raised)
  next
    case r: (Inr sent)
    show ?thesis
    proof (cases sent)
      case False
      with assms n r Inr show ?thesis
        by (simp add: post_api_contact_def submit_contact_form_not_sent)
    next
      case True
      obtain c w2 where "send_confirmation_email cfg ev f w1 = (Inr c, w2)"
        using send_confirmation_email_returns by blast
      with n r True have "submit_contact_form cfg ev f w =
          (Inr \<lparr>success = True,
                reply_message = ''Your message has been sent successfully!'',
                details = \<lparr>notification_sent = True, confirmation_sent = c\<rparr>\<rparr>, w2)"
        by (simp add: submit_contact_form_sent)
      with Inr show ?thesis
        by (simp add: post_api_contact_def)
    qed
  qed
qed

theorem C9_success_implies_notified_witness:
  "status (fst (post_api_contact at_sign_syntax example_config relay_inbox_only ada
       fresh_world)) = 200
   \<and> (\<exists>c. content (fst (post_api_contact at_sign_syntax example_config relay_inbox_only ada
         fresh_world))
       = Json \<lparr>success = True,
           reply_message = ''Your message has been sent successfully!'',
           details = \<lparr>notification_sent = True, confirmation_sent = c\<rparr>\<rparr>)"
proof -
  note n = send_notification_email_delivered [OF example_config_complete ada_form_encodable
      relay_inbox_only_notification]
  note c = send_confirmation_email_raised [OF confirmation_encodable [OF ada_form_encodable]
      relay_inbox_only_confirmation]
  have s: "status (fst (post_api_contact at_sign_syntax example_config relay_inbox_only ada
      fresh_world)) = 200"
    by (simp add: post_api_contact_def validate_ada submit_contact_form_sent [OF n c])
  show ?thesis
    using s C9_success_implies_notified [OF s] by simp
qed

text \<open>
  C10. Under a complete configuration neither \<open>send_notification_email\<close> nor
  \<open>send_confirmation_email\<close> raises: each returns a boolean, true when the body could be
  encoded and the relay delivered the message, false when \<open>MIMEText\<close> or the relay
  raised.
\<close>

theorem C10_sends_return_booleans:
  assumes "truthy (username cfg)" and "truthy (password cfg)" and "truthy (RECIPIENT_EMAIL cfg)"
  shows "fst (send_notification_email cfg ev f w)
      = Inr (encodable (notification_html ev f)
          \<and> smtp ev (send_args cfg (attach (notification_message cfg f)
                (notification_html ev f))) = Delivered)
    \<and> fst (send_confirmation_email cfg ev f w)
      = Inr (encodable (confirmation_html f)
          \<and> smtp ev (send_args cfg (attach (confirmation_message cfg f)
                (confirmation_html f))) = Delivered)"
proof -
  have "fst (send_notification_email cfg ev f w)
      = Inr (encodable (notification_html ev f)
          \<and> smtp ev (send_args cfg (attach (notification_message cfg f)
                (notification_html ev f))) = Delivered)"
  proof (cases "encodable (notification_html ev f)")
    case False
    then show ?thesis
      by (simp add: send_notification_email_unencodable [OF assms])
  next
    case True
    show ?thesis
      by (cases "smtp ev (send_args cfg (attach (notification_message cfg f)
            (notification_html ev f)))")
        (simp_all add: True send_notification_email_delivered [OF assms True]
          send_notification_email_raised [OF assms True])
  qed
  moreover have "fst (send_confirmation_email cfg ev f w)
      = Inr (encodable (confirmation_html f)
          \<and> smtp ev (send_args cfg (attach (confirmation_message cfg f)
                (confirmation_html f))) = Delivered)"
  proof (cases "encodable (confirmation_html f)")
    case False
    then show ?thesis
      by (simp add: send_confirmation_email_unencodable)
  next
    case True
    show ?thesis
      by (cases "smtp ev (send_args cfg (attach (confirmation_message cfg f)
            (confirmation_html f)))")
        (simp_all add: True send_confirmation_email_delivered [OF True]
          send_confirmation_email_raised [OF True])
  qed
  ultimately show ?thesis by simp
qed

theorem C10_sends_return_booleans_witness:
  "(fst (send_notification_email example_config relay_down ada_form fresh_world) = Inr False
    \<and> fst (send_confirmation_email example_config relay_down ada_form fresh_world) = Inr False)
   \<and> (fst (send_notification_email example_config relay_up surrogate_form fresh_world)
        = Inr False
    \<and> fst (send_confirmation_email example_config relay_up surrogate_form fresh_world)
        = Inr False)"
  using C10_sends_return_booleans [OF example_config_complete, of relay_down ada_form
      fresh_world]
    C10_sends_return_booleans [OF example_config_complete, of relay_up surrogate_form
      fresh_world]
  by (simp add: relay_down_raises surrogate_form_unencodable)

end
